theory Spec2Isabelle
  imports Main "HOL-Library.Sublist"
begin

section \<open>Python values\<close>

text \<open>
  Strings are byte strings holding the UTF-8 encoding of the Python text. Exceptions are
  values: every \<open>raise\<close> of the source is an \<open>Inl\<close> branch of the model. Each exception
  carries the text that \<open>str(e)\<close> yields.
\<close>

datatype py_error = ValueError string | IndexError string | Exception string

fun str_of_error :: "py_error \<Rightarrow> string" where
  "str_of_error (ValueError m) = m"
| "str_of_error (IndexError m) = m"
| "str_of_error (Exception m) = m"

text \<open>
  \<open>xs[-n:]\<close>: the last \<open>n\<close> elements, the whole list when it is shorter.
\<close>

definition last_n :: "nat \<Rightarrow> 'a list \<Rightarrow> 'a list" where
  "last_n n xs = drop (length xs - n) xs"

text \<open>
  \<open>random.choice(seq)\<close> raises IndexError on an empty sequence and returns
  \<open>seq[i]\<close> for a random index \<open>i\<close> otherwise. The random draw is the argument \<open>r\<close>,
  reduced modulo the length, so that every element is the result of some draw.
\<close>

definition random_choice :: "nat \<Rightarrow> 'a list \<Rightarrow> py_error + 'a" where
  "random_choice r xs =
     (if xs = [] then Inl (IndexError ''Cannot choose from an empty sequence'')
      else Inr (xs ! (r mod length xs)))"

text \<open>
  \<open>str.strip()\<close> removes the white space of both ends. The white space characters of
  Python are listed in their UTF-8 encoding; no encoding is the end of another
  character's encoding, so removing them bytewise removes whole characters.
\<close>

definition py_whitespace :: "string list" where
  "py_whitespace =
     [[CHR 0x09], [CHR 0x0A], [CHR 0x0B], [CHR 0x0C], [CHR 0x0D],
      [CHR 0x1C], [CHR 0x1D], [CHR 0x1E], [CHR 0x1F], [CHR 0x20],
      [CHR 0xC2, CHR 0x85], [CHR 0xC2, CHR 0xA0],
      [CHR 0xE1, CHR 0x9A, CHR 0x80],
      [CHR 0xE2, CHR 0x80, CHR 0x80], [CHR 0xE2, CHR 0x80, CHR 0x81],
      [CHR 0xE2, CHR 0x80, CHR 0x82], [CHR 0xE2, CHR 0x80, CHR 0x83],
      [CHR 0xE2, CHR 0x80, CHR 0x84], [CHR 0xE2, CHR 0x80, CHR 0x85],
      [CHR 0xE2, CHR 0x80, CHR 0x86], [CHR 0xE2, CHR 0x80, CHR 0x87],
      [CHR 0xE2, CHR 0x80, CHR 0x88], [CHR 0xE2, CHR 0x80, CHR 0x89],
      [CHR 0xE2, CHR 0x80, CHR 0x8A],
      [CHR 0xE2, CHR 0x80, CHR 0xA8], [CHR 0xE2, CHR 0x80, CHR 0xA9],
      [CHR 0xE2, CHR 0x80, CHR 0xAF], [CHR 0xE2, CHR 0x81, CHR 0x9F],
      [CHR 0xE3, CHR 0x80, CHR 0x80]]"

function drop_leading :: "string list \<Rightarrow> string \<Rightarrow> string" where
  "drop_leading ws s =
     (case find (\<lambda>w. w \<noteq> [] \<and> prefix w s) ws of
        None \<Rightarrow> s
      | Some w \<Rightarrow> drop_leading ws (drop (length w) s))"
  by pat_completeness auto
termination
proof (relation "measure (\<lambda>(ws, s). length s)")
  show "wf (measure (\<lambda>(ws, s). length s))"
    by simp
next
  fix ws :: "string list" and s w :: string
  assume "find (\<lambda>w. w \<noteq> [] \<and> prefix w s) ws = Some w"
  then have "w \<noteq> [] \<and> prefix w s"
    by (auto simp: find_Some_iff)
  then have "0 < length w" and "length w \<le> length s"
    by (auto simp: prefix_def)
  then have "length s - length w < length s"
    by arith
  then show "((ws, drop (length w) s), (ws, s)) \<in> measure (\<lambda>(ws, s). length s)"
    by simp
qed

definition py_strip :: "string \<Rightarrow> string" where
  "py_strip s =
     rev (drop_leading (map rev py_whitespace) (rev (drop_leading py_whitespace s)))"

text \<open>\<open>str.upper()\<close> on the ASCII text of a UUID.\<close>

definition py_upper :: "char \<Rightarrow> char" where
  "py_upper c =
     (case map_of (zip ''abcdefghijklmnopqrstuvwxyz'' ''ABCDEFGHIJKLMNOPQRSTUVWXYZ'') c of
        None \<Rightarrow> c
      | Some u \<Rightarrow> u)"

section \<open>bot\_manager.py\<close>

text \<open>A chat message \<open>{"role": ..., "content": ...}\<close>.\<close>

record chat_message =
  role :: string
  content :: string

text \<open>
  An entry of \<open>BotManager.sessions\<close>. Every entry that the program stores has
  these three keys, so an entry is never an empty dictionary and the test
  \<open>if not sess\<close> of \<open>get_bot_response\<close> fails exactly for a missing entry.
\<close>

record session =
  participant_id :: string
  bot_type :: string
  history :: "chat_message list"

text \<open>
  The class \<open>CrisisDetector\<close> is imported from a module outside this code base, so the
  detector is a parameter: \<open>check_message\<close> returns the pair
  \<open>(is_crisis, detected_keyword)\<close> or raises, and \<open>get_crisis_response\<close> is \<open>None\<close>
  when the object has no such attribute.
\<close>

record crisis_detector =
  check_message :: "string \<Rightarrow> py_error + (bool \<times> string option)"
  get_crisis_response :: "(py_error + string) option"

text \<open>
  The fields of \<open>BotManager\<close> that the session operations read or write.
  \<open>client\<close> is \<open>self._client.chat.completions.create\<close> with the configured model,
  temperature and token budget, followed by \<open>resp.choices[0].message.content\<close>: it
  returns the content (possibly \<open>None\<close>) or raises. \<open>calls\<close> is the trace of the payloads
  the client was invoked with, oldest first. \<open>crisis_file_text\<close> is what \<open>_read_text\<close>
  yields for \<open>crisis_text_path\<close>: the stripped content of the file, empty when there
  is no path or the file cannot be read.
\<close>

record bot_manager =
  prompts :: "string \<rightharpoonup> string"
  sessions :: "string \<rightharpoonup> session"
  crisis :: "crisis_detector option"
  crisis_file_text :: string
  client :: "chat_message list \<Rightarrow> py_error + string option"
  calls :: "chat_message list list"

definition bot_types :: "string list" where
  "bot_types = [''cognitive'', ''emotional'', ''motivational'', ''control'']"

text \<open>What \<open>get_bot_response\<close> returns.\<close>

record response =
  bot_response :: string
  crisis_detected :: bool
  detected_keyword :: "string option"

text \<open>What \<open>create_new_session\<close> returns.\<close>

record session_data =
  sd_session_id :: string
  sd_participant_id :: string
  sd_bot_type :: string

text \<open>
  \<open>create_new_session\<close>: the two UUIDs and the random draw are arguments.
\<close>

definition create_new_session ::
  "bot_manager \<Rightarrow> string \<Rightarrow> string \<Rightarrow> nat \<Rightarrow> (py_error + session_data) \<times> bot_manager" where
  "create_new_session bm uuid1 uuid2 r =
     (let session_id = uuid1;
          pid = ''P'' @ map py_upper (take 8 uuid2)
      in case random_choice r bot_types of
           Inl e \<Rightarrow> (Inl e, bm)
         | Inr bt \<Rightarrow>
             (Inr \<lparr>sd_session_id = session_id, sd_participant_id = pid, sd_bot_type = bt\<rparr>,
              bm\<lparr>sessions := (sessions bm)(session_id \<mapsto>
                    \<lparr>participant_id = pid, bot_type = bt, history = []\<rparr>)\<rparr>))"

definition error_reply :: "py_error \<Rightarrow> string" where
  "error_reply e =
     ''I'' @ [CHR 0xC3, CHR 0xA2, CHR 0xE2, CHR 0x82, CHR 0xAC, CHR 0xE2, CHR 0x84, CHR 0xA2]
       @ ''m sorry, I ran into an error: '' @ str_of_error e"

text \<open>
  \<open>_call_model\<close>: every exception of the client is caught and turned into a reply.
\<close>

definition call_model :: "bot_manager \<Rightarrow> chat_message list \<Rightarrow> string \<times> bot_manager" where
  "call_model bm messages =
     (let bm' = bm\<lparr>calls := calls bm @ [messages]\<rparr>
      in case client bm messages of
           Inr c \<Rightarrow> (py_strip (case c of None \<Rightarrow> [] | Some t \<Rightarrow> t), bm')
         | Inl e \<Rightarrow> (error_reply e, bm'))"

definition default_crisis_text :: string where
  "default_crisis_text =
     ''I'm concerned about your safety. If you are in immediate danger, please call your local emergency number. ''
     @ ''You can also reach out to a trusted person or a professional helpline available in your area.''"

text \<open>\<open>_crisis_text\<close>.\<close>

definition crisis_text :: "bot_manager \<Rightarrow> string" where
  "crisis_text bm =
     (let fallback = (if crisis_file_text bm \<noteq> [] then crisis_file_text bm
                      else default_crisis_text)
      in case crisis bm of
           None \<Rightarrow> fallback
         | Some d \<Rightarrow>
             (case get_crisis_response d of
                Some (Inr t) \<Rightarrow> t
              | Some (Inl e) \<Rightarrow> fallback
              | None \<Rightarrow> fallback))"

text \<open>
  The crisis check of \<open>get_bot_response\<close>: no detector, or a detector that raises, means
  no crisis.
\<close>

definition crisis_check :: "bot_manager \<Rightarrow> string \<Rightarrow> bool \<times> string option" where
  "crisis_check bm user_message =
     (case crisis bm of
        None \<Rightarrow> (False, None)
      | Some d \<Rightarrow>
          (case check_message d user_message of
             Inl e \<Rightarrow> (False, None)
           | Inr res \<Rightarrow> res))"

text \<open>The payload of a turn: system prompt if not empty, last 20 messages, new turn.\<close>

definition build_messages :: "bot_manager \<Rightarrow> session \<Rightarrow> string \<Rightarrow> chat_message list" where
  "build_messages bm sess user_message =
     (let system_prompt = (case prompts bm (bot_type sess) of None \<Rightarrow> [] | Some p \<Rightarrow> p)
      in (if system_prompt \<noteq> [] then [\<lparr>role = ''system'', content = system_prompt\<rparr>] else [])
         @ last_n 20 (history sess)
         @ [\<lparr>role = ''user'', content = user_message\<rparr>])"

definition get_bot_response ::
  "bot_manager \<Rightarrow> string \<Rightarrow> string \<Rightarrow> int \<Rightarrow> (py_error + response) \<times> bot_manager" where
  "get_bot_response bm session_id user_message message_num =
     (case sessions bm session_id of
        None \<Rightarrow> (Inl (ValueError (''Session not found: '' @ session_id)), bm)
      | Some sess \<Rightarrow>
          (case crisis_check bm user_message of
             (True, kw) \<Rightarrow>
               (Inr \<lparr>bot_response = crisis_text bm, crisis_detected = True,
                     detected_keyword = kw\<rparr>, bm)
           | (False, kw) \<Rightarrow>
               (case call_model bm (build_messages bm sess user_message) of
                  (reply, bm') \<Rightarrow>
                    (Inr \<lparr>bot_response = reply, crisis_detected = False,
                          detected_keyword = None\<rparr>,
                     bm'\<lparr>sessions := (sessions bm')(session_id \<mapsto>
                           sess\<lparr>history := history sess
                             @ [\<lparr>role = ''user'', content = user_message\<rparr>,
                                \<lparr>role = ''assistant'', content = reply\<rparr>]\<rparr>)\<rparr>))))"

definition end_session :: "bot_manager \<Rightarrow> string \<Rightarrow> bool \<Rightarrow> bot_manager" where
  "end_session bm session_id completed =
     (if session_id \<in> dom (sessions bm)
      then bm\<lparr>sessions := (sessions bm)(session_id := None)\<rparr>
      else bm)"

section \<open>conversation\_handler.py\<close>

text \<open>
  An entry of a conversation's message list. \<open>datetime.utcnow()\<close> is an argument of
  every operation that reads the clock.
\<close>

record message_entry =
  sender :: string
  entry_content :: string
  timestamp :: nat

text \<open>
  The conversation state dictionary. \<open>ended_at\<close> and \<open>end_reason\<close> are the keys
  that only \<open>end_conversation\<close> adds.
\<close>

record conversation =
  conv_session_id :: string
  conv_participant_id :: string
  conv_bot_type :: string
  current_message_num :: int
  conv_max_messages :: int
  started_at :: nat
  is_active :: bool
  is_complete :: bool
  messages :: "message_entry list"
  ended_at :: "nat option"
  end_reason :: "string option"

record conversation_handler =
  max_messages :: int
  conversations :: "string \<rightharpoonup> conversation"

definition start_conversation ::
  "conversation_handler \<Rightarrow> string \<Rightarrow> string \<Rightarrow> string \<Rightarrow> nat
     \<Rightarrow> conversation \<times> conversation_handler" where
  "start_conversation h session_id pid bt now =
     (let conversation_state =
            \<lparr>conv_session_id = session_id, conv_participant_id = pid, conv_bot_type = bt,
             current_message_num = 0, conv_max_messages = max_messages h,
             started_at = now, is_active = True, is_complete = False, messages = [],
             ended_at = None, end_reason = None\<rparr>
      in (conversation_state,
          h\<lparr>conversations := (conversations h)(session_id \<mapsto> conversation_state)\<rparr>))"

definition add_message ::
  "conversation_handler \<Rightarrow> string \<Rightarrow> string \<Rightarrow> string \<Rightarrow> nat
     \<Rightarrow> py_error + conversation \<times> conversation_handler" where
  "add_message h session_id sndr text now =
     (case conversations h session_id of
        None \<Rightarrow> Inl (ValueError (''Conversation not found for session: '' @ session_id))
      | Some conversation \<Rightarrow>
          (let c1 = conversation\<lparr>messages := messages conversation
                      @ [\<lparr>sender = sndr, entry_content = text, timestamp = now\<rparr>]\<rparr>;
               c2 = (if sndr = ''user''
                     then c1\<lparr>current_message_num := current_message_num c1 + 1\<rparr>
                     else c1);
               c3 = (if current_message_num c2 \<ge> max_messages h
                     then c2\<lparr>is_active := False, is_complete := True\<rparr>
                     else c2)
           in Inr (c3, h\<lparr>conversations := (conversations h)(session_id \<mapsto> c3)\<rparr>)))"

definition end_conversation ::
  "conversation_handler \<Rightarrow> string \<Rightarrow> string \<Rightarrow> nat \<Rightarrow> conversation_handler" where
  "end_conversation h session_id reason now =
     (case conversations h session_id of
        None \<Rightarrow> h
      | Some conversation \<Rightarrow>
          (let c1 = conversation\<lparr>is_active := False, ended_at := Some now,
                                  end_reason := Some reason\<rparr>;
               c2 = (if current_message_num c1 \<ge> conv_max_messages c1
                     then c1\<lparr>is_complete := True\<rparr>
                     else c1)
           in h\<lparr>conversations := (conversations h)(session_id \<mapsto> c2)\<rparr>))"

text \<open>
  A sequence of calls on one session, stopping at the first exception.
\<close>

datatype conv_op = AddMessage string string nat | EndConversation string nat

fun run_ops :: "conversation_handler \<Rightarrow> string \<Rightarrow> conv_op list \<Rightarrow> py_error + conversation_handler" where
  "run_ops h sid [] = Inr h"
| "run_ops h sid (AddMessage sndr text now # ops) =
     (case add_message h sid sndr text now of
        Inl e \<Rightarrow> Inl e
      | Inr (c, h') \<Rightarrow> run_ops h' sid ops)"
| "run_ops h sid (EndConversation reason now # ops) =
     run_ops (end_conversation h sid reason now) sid ops"

text \<open>The number of user messages among the calls.\<close>

fun user_turns :: "conv_op list \<Rightarrow> int" where
  "user_turns [] = 0"
| "user_turns (AddMessage sndr text now # ops) =
     (if sndr = ''user'' then 1 else 0) + user_turns ops"
| "user_turns (EndConversation reason now # ops) = user_turns ops"

section \<open>random\_assignment.py\<close>

text \<open>
  \<open>db_manager.get_statistics()\<close> belongs to a module outside this code base: its result
  is a parameter. \<open>bot_distribution\<close> is a dictionary, kept as the list of its items in
  iteration order.
\<close>

record statistics =
  bot_distribution :: "(string \<times> int) list"
  total_participants :: int

definition ra_bot_types :: "string list" where
  "ra_bot_types = [''emotional'', ''cognitive'', ''motivational'', ''neutral'']"

text \<open>
  \<open>min\<close> of a sequence raises ValueError when the sequence is empty (the text of the
  message is the one of CPython up to 3.11).
\<close>

fun py_min :: "int list \<Rightarrow> py_error + int" where
  "py_min [] = Inl (ValueError ''min() arg is an empty sequence'')"
| "py_min (x # xs) = Inr (fold min xs x)"

definition bot_types_with_min :: "(string \<times> int) list \<Rightarrow> int \<Rightarrow> string list" where
  "bot_types_with_min distribution min_count =
     map fst (filter (\<lambda>(b, count). count = min_count) distribution)"

definition assign_equal_distribution :: "statistics \<Rightarrow> nat \<Rightarrow> py_error + string" where
  "assign_equal_distribution stats r =
     (let distribution = bot_distribution stats
      in case py_min (map snd distribution) of
           Inl e \<Rightarrow> Inl e
         | Inr min_count \<Rightarrow> random_choice r (bot_types_with_min distribution min_count))"

definition assign_random :: "nat \<Rightarrow> py_error + string" where
  "assign_random r = random_choice r ra_bot_types"

definition assign_sequential :: "statistics \<Rightarrow> py_error + string" where
  "assign_sequential stats =
     (let index = total_participants stats mod int (length ra_bot_types)
      in Inr (ra_bot_types ! nat index))"

definition assign_bot_type :: "string \<Rightarrow> statistics \<Rightarrow> nat \<Rightarrow> py_error + string" where
  "assign_bot_type method stats r =
     (if method = ''equal_distribution'' then assign_equal_distribution stats r
      else if method = ''random'' then assign_random r
      else if method = ''sequential'' then assign_sequential stats
      else assign_equal_distribution stats r)"

text \<open>
  Modelled from the spec: the persistence of a new participant, which belongs to the
  database module outside this code base. The spec says that the balancer only reads the
  counts and that "the caller is responsible for persisting the new participant, which
  is what changes the distribution for the next call": the count of the assigned
  variant grows by one.
\<close>

definition persist_participant :: "(string \<times> int) list \<Rightarrow> string \<Rightarrow> (string \<times> int) list" where
  "persist_participant distribution assigned_bot =
     (if assigned_bot \<in> set (map fst distribution)
      then map (\<lambda>(k, c). if k = assigned_bot then (k, c + 1) else (k, c)) distribution
      else distribution @ [(assigned_bot, 1)])"

text \<open>
  Serialized assignments, one random draw each: the distributions seen before the first
  call and after each one.
\<close>

fun assign_sequence :: "(string \<times> int) list \<Rightarrow> nat list \<Rightarrow> py_error + (string \<times> int) list list" where
  "assign_sequence d [] = Inr [d]"
| "assign_sequence d (r # rs) =
     (case assign_bot_type ''equal_distribution''
             \<lparr>bot_distribution = d, total_participants = sum_list (map snd d)\<rparr> r of
        Inl e \<Rightarrow> Inl e
      | Inr assigned_bot \<Rightarrow>
          (case assign_sequence (persist_participant d assigned_bot) rs of
             Inl e \<Rightarrow> Inl e
           | Inr ds \<Rightarrow> Inr (d # ds)))"

text \<open>The largest count minus the smallest.\<close>

definition count_spread :: "(string \<times> int) list \<Rightarrow> int" where
  "count_spread d = Max (set (map snd d)) - Min (set (map snd d))"

section \<open>app.py\<close>

text \<open>
  The calls on the database manager, a module outside this code base, are kept as a log.
\<close>

datatype db_event =
    SaveMessage string int string string "bool option"
  | MarkParticipantCompleted string
  | CreateCrisisFlag string int string

text \<open>
  The fields of \<open>st.session_state\<close> that the conversation stage uses, the bot manager
  of the run and the database log.
\<close>

record app_state =
  ss_session_id :: string
  ss_participant_id :: string
  ss_bot_type :: string
  ss_conversation_active :: bool
  ss_conversation_complete :: bool
  ss_messages :: "chat_message list"
  ss_current_message_num :: int
  app_bot :: bot_manager
  app_db :: "db_event list"

text \<open>
  The rehydration block of \<open>main\<close>: a session missing from the bot manager is rebuilt
  from the last 20 displayed messages.
\<close>

definition rehydrate :: "app_state \<Rightarrow> app_state" where
  "rehydrate a =
     (let sess_id = ss_session_id a
      in if sess_id \<noteq> [] \<and> sess_id \<notin> dom (sessions (app_bot a))
         then a\<lparr>app_bot := (app_bot a)\<lparr>sessions := (sessions (app_bot a))(sess_id \<mapsto>
                  \<lparr>participant_id = ss_participant_id a, bot_type = ss_bot_type a,
                   history = filter (\<lambda>m. role m = ''user'' \<or> role m = ''assistant'')
                               (last_n 20 (ss_messages a))\<rparr>)\<rparr>\<rparr>
         else a)"

text \<open>
  The body of \<open>if user_input:\<close> in \<open>main\<close>. \<open>row_id\<close> gives the \<open>id\<close> attribute of
  the row that the last \<open>save_message\<close> of the log returned, if it has one.
\<close>

definition handle_user_input ::
  "(db_event list \<Rightarrow> int option) \<Rightarrow> app_state \<Rightarrow> string \<Rightarrow> app_state" where
  "handle_user_input row_id a user_input =
     (let message_num = ss_current_message_num a + 1;
          pid = ss_participant_id a;
          a1 = a\<lparr>ss_current_message_num := message_num,
                 ss_messages := ss_messages a @ [\<lparr>role = ''user'', content = user_input\<rparr>],
                 app_db := app_db a @ [SaveMessage pid message_num ''user'' user_input None]\<rparr>
      in case get_bot_response (app_bot a1) (ss_session_id a1) user_input message_num of
           (Inl e, bm') \<Rightarrow> a1\<lparr>app_bot := bm'\<rparr>
         | (Inr response_data, bm') \<Rightarrow>
             (let reply = bot_response response_data;
                  a2 = a1\<lparr>app_bot := bm',
                          ss_messages := ss_messages a1 @ [\<lparr>role = ''assistant'', content = reply\<rparr>],
                          app_db := app_db a1
                            @ [SaveMessage pid message_num ''bot'' reply
                                 (Some (crisis_detected response_data))]\<rparr>;
                  keyword = (case detected_keyword response_data of
                               None \<Rightarrow> ''crisis''
                             | Some k \<Rightarrow> if k = [] then ''crisis'' else k)
              in if crisis_detected response_data
                 then (case row_id (app_db a2) of
                         None \<Rightarrow> a2
                       | Some msg_id \<Rightarrow>
                           if msg_id \<noteq> 0
                           then a2\<lparr>app_db := app_db a2 @ [CreateCrisisFlag pid msg_id keyword]\<rparr>
                           else a2)
                 else a2))"

text \<open>
  Stage 3 of \<open>main\<close>, the active conversation, for one run of the script. \<open>user_input\<close>
  is what the input widget returns: \<open>None\<close> or the submitted text. \<open>st.rerun()\<close> ends
  the run.
\<close>

definition main_active_conversation ::
  "int \<Rightarrow> (db_event list \<Rightarrow> int option) \<Rightarrow> app_state \<Rightarrow> string option \<Rightarrow> app_state" where
  "main_active_conversation cfg_max_messages row_id a user_input =
     (let a1 = rehydrate a
      in if ss_current_message_num a1 \<ge> cfg_max_messages
         then a1\<lparr>ss_conversation_active := False, ss_conversation_complete := True,
                 app_db := app_db a1 @ [MarkParticipantCompleted (ss_participant_id a1)],
                 app_bot := end_session (app_bot a1) (ss_session_id a1) True\<rparr>
         else (case user_input of
                 None \<Rightarrow> a1
               | Some u \<Rightarrow> if u \<noteq> [] then handle_user_input row_id a1 u else a1))"

text \<open>
  \<open>main\<close> once the welcome page has been left: the completion page takes no input.
\<close>

definition main_after_welcome ::
  "int \<Rightarrow> (db_event list \<Rightarrow> int option) \<Rightarrow> app_state \<Rightarrow> string option \<Rightarrow> app_state" where
  "main_after_welcome cfg_max_messages row_id a user_input =
     (if ss_conversation_complete a then a
      else if ss_conversation_active a
      then main_active_conversation cfg_max_messages row_id a user_input
      else a)"

text \<open>
  The invariant of balanced assignment: the dictionary is not empty, its keys are
  distinct, and no count exceeds another by more than one.
\<close>

definition balanced :: "(string \<times> int) list \<Rightarrow> bool" where
  "balanced d \<longleftrightarrow> d \<noteq> [] \<and> distinct (map fst d)
     \<and> (\<forall>c \<in> set (map snd d). \<forall>c' \<in> set (map snd d). c \<le> c' + 1)"

section \<open>Example inputs\<close>

definition example_detector :: crisis_detector where
  "example_detector =
     \<lparr>check_message = (\<lambda>m. if m = ''I want to end my life''
                              then Inr (True, Some ''end my life'') else Inr (False, None)),
      get_crisis_response = Some (Inr ''Please call or text 988.'')\<rparr>"

definition example_session :: session where
  "example_session = \<lparr>participant_id = ''P1A2B3C4D'', bot_type = ''emotional'', history = []\<rparr>"

definition example_manager :: bot_manager where
  "example_manager =
     \<lparr>prompts = [''emotional'' \<mapsto> ''Be warm.'', ''control'' \<mapsto> []],
      sessions = [''s1'' \<mapsto> example_session],
      crisis = Some example_detector,
      crisis_file_text = [],
      client = (\<lambda>payload. Inr (Some '' Hello there. '')),
      calls = []\<rparr>"

definition failing_manager :: bot_manager where
  "failing_manager = example_manager\<lparr>client := (\<lambda>payload. Inl (Exception ''timeout''))\<rparr>"

definition example_app :: app_state where
  "example_app =
     \<lparr>ss_session_id = ''s1'', ss_participant_id = ''P1A2B3C4D'', ss_bot_type = ''emotional'',
      ss_conversation_active = True, ss_conversation_complete = False,
      ss_messages = [], ss_current_message_num = 0,
      app_bot = example_manager, app_db = []\<rparr>"

definition failing_app :: app_state where
  "failing_app = example_app\<lparr>app_bot := failing_manager\<rparr>"

text \<open>A database whose saved rows have no \<open>id\<close> attribute.\<close>

definition no_row_id :: "db_event list \<Rightarrow> int option" where
  "no_row_id log = None"

definition example_handler :: conversation_handler where
  "example_handler = \<lparr>max_messages = 3, conversations = Map.empty\<rparr>"

definition skewed_distribution :: "(string \<times> int) list" where
  "skewed_distribution =
     [(''cognitive'', 5), (''emotional'', 0), (''motivational'', 0), (''control'', 0)]"

definition zero_distribution :: "(string \<times> int) list" where
  "zero_distribution =
     [(''emotional'', 0), (''cognitive'', 0), (''motivational'', 0), (''neutral'', 0)]"

section \<open>Session registry\<close>

lemma non_crisis_check:
  assumes "\<And>d kw. crisis bm = Some d \<Longrightarrow> check_message d user_message \<noteq> Inr (True, kw)"
  shows "\<exists>kw. crisis_check bm user_message = (False, kw)"
  using assms by (auto simp: crisis_check_def split: option.splits sum.splits)

text \<open>
  C1: when the session exists and the crisis detector reports a crisis for the user
  message, \<open>get_bot_response\<close> returns the crisis text as the reply, with the detected
  keyword, and the bot manager is returned as it was: the trace of client calls has not
  grown and no session's history has changed. The crisis text is the detector's
  configured response whenever the detector supplies one.
\<close>

theorem crisis_short_circuit:
  assumes "sessions bm session_id = Some sess"
      and "crisis bm = Some d"
      and "check_message d user_message = Inr (True, kw)"
  shows "get_bot_response bm session_id user_message message_num =
           (Inr \<lparr>bot_response = crisis_text bm, crisis_detected = True, detected_keyword = kw\<rparr>, bm)
         \<and> (\<forall>t. get_crisis_response d = Some (Inr t) \<longrightarrow> crisis_text bm = t)"
  using assms by (simp add: get_bot_response_def crisis_check_def crisis_text_def)

theorem crisis_short_circuit_witness:
  "fst (get_bot_response example_manager ''s1'' ''I want to end my life'' 1) =
     Inr \<lparr>bot_response = ''Please call or text 988.'', crisis_detected = True,
          detected_keyword = Some ''end my life''\<rparr>
   \<and> calls (snd (get_bot_response example_manager ''s1'' ''I want to end my life'' 1)) = []
   \<and> sessions (snd (get_bot_response example_manager ''s1'' ''I want to end my life'' 1)) ''s1''
       = Some example_session"
  using crisis_short_circuit [of example_manager "''s1''" example_session example_detector
          "''I want to end my life''" "Some ''end my life''" 1]
  by (simp add: example_manager_def example_detector_def)

text \<open>
  C8: for a session id that is not in the registry \<open>get_bot_response\<close> raises the
  session-not-found error (a ValueError with the text "Session not found: " and the id)
  and changes nothing; for a session id that is in the registry it raises nothing and
  returns a reply.
\<close>

theorem session_not_found:
  "(sessions bm session_id = None \<longrightarrow>
      get_bot_response bm session_id user_message message_num =
        (Inl (ValueError (''Session not found: '' @ session_id)), bm))
   \<and> (sessions bm session_id \<noteq> None \<longrightarrow>
      (\<exists>resp bm'. get_bot_response bm session_id user_message message_num = (Inr resp, bm')))"
  by (auto simp: get_bot_response_def split: option.splits prod.splits bool.splits)

theorem session_not_found_witness:
  "get_bot_response example_manager ''s2'' ''hello'' 1 =
     (Inl (ValueError ''Session not found: s2''), example_manager)
   \<and> (\<exists>resp bm'. get_bot_response example_manager ''s1'' ''hello'' 1 = (Inr resp, bm'))"
  using session_not_found [of example_manager "''s2''" "''hello''" 1]
        session_not_found [of example_manager "''s1''" "''hello''" 1]
  by (simp add: example_manager_def)

text \<open>
  C10: \<open>end_session\<close> has no failing branch. For a session id that is not in the
  registry it returns the bot manager unchanged; for a registered id it removes that
  entry and leaves every other entry as it was.
\<close>

theorem end_session_registry:
  "(session_id \<notin> dom (sessions bm) \<longrightarrow> end_session bm session_id completed = bm)
   \<and> (session_id \<in> dom (sessions bm) \<longrightarrow>
        end_session bm session_id completed = bm\<lparr>sessions := (sessions bm)(session_id := None)\<rparr>
        \<and> dom (sessions (end_session bm session_id completed)) = dom (sessions bm) - {session_id}
        \<and> (\<forall>k. k \<noteq> session_id \<longrightarrow>
              sessions (end_session bm session_id completed) k = sessions bm k))"
  by (auto simp: end_session_def)

theorem end_session_registry_witness:
  "end_session example_manager ''s2'' True = example_manager
   \<and> dom (sessions (end_session example_manager ''s1'' True)) = {}"
  using end_session_registry [of "''s2''" example_manager True]
        end_session_registry [of "''s1''" example_manager True]
  by (simp add: example_manager_def)

text \<open>
  C7: on a turn of an existing session for which no crisis is detected, the client is
  invoked once, with the payload made of the system prompt of the session's bot type
  (present exactly when that prompt exists and is not empty), then the last 20
  messages of the history in order, then the new user message. The reply is the
  stripped content when the client returns, and the user message and the reply are
  appended to the history in that order.
\<close>

theorem payload_shape:
  assumes "sessions bm session_id = Some sess"
      and "\<And>d kw. crisis bm = Some d \<Longrightarrow> check_message d user_message \<noteq> Inr (True, kw)"
  shows "\<exists>payload reply bm'.
           get_bot_response bm session_id user_message message_num =
             (Inr \<lparr>bot_response = reply, crisis_detected = False, detected_keyword = None\<rparr>, bm')
         \<and> calls bm' = calls bm @ [payload]
         \<and> payload =
             (case prompts bm (bot_type sess) of
                None \<Rightarrow> []
              | Some p \<Rightarrow> if p = [] then [] else [\<lparr>role = ''system'', content = p\<rparr>])
             @ drop (length (history sess) - 20) (history sess)
             @ [\<lparr>role = ''user'', content = user_message\<rparr>]
         \<and> (\<forall>c. client bm payload = Inr c \<longrightarrow>
                reply = py_strip (case c of None \<Rightarrow> [] | Some t \<Rightarrow> t))
         \<and> sessions bm' = (sessions bm)(session_id \<mapsto>
               sess\<lparr>history := history sess
                 @ [\<lparr>role = ''user'', content = user_message\<rparr>,
                    \<lparr>role = ''assistant'', content = reply\<rparr>]\<rparr>)"
proof -
  obtain kw where nc: "crisis_check bm user_message = (False, kw)"
    using non_crisis_check [OF assms(2)] by blast
  show ?thesis
    using assms(1) nc
    by (auto simp: get_bot_response_def call_model_def build_messages_def last_n_def Let_def
             split: option.splits sum.splits)
qed

theorem payload_shape_witness:
  "calls (snd (get_bot_response example_manager ''s1'' ''hello'' 1)) =
     [[\<lparr>role = ''system'', content = ''Be warm.''\<rparr>, \<lparr>role = ''user'', content = ''hello''\<rparr>]]
   \<and> map_option history (sessions (snd (get_bot_response example_manager ''s1'' ''hello'' 1)) ''s1'') =
     Some [\<lparr>role = ''user'', content = ''hello''\<rparr>,
           \<lparr>role = ''assistant'', content = ''Hello there.''\<rparr>]"
proof -
  have s: "sessions example_manager ''s1'' = Some example_session"
    by (simp add: example_manager_def)
  have n: "\<And>d kw. crisis example_manager = Some d \<Longrightarrow> check_message d ''hello'' \<noteq> Inr (True, kw)"
    by (auto simp: example_manager_def example_detector_def)
  have c: "client example_manager p = Inr (Some '' Hello there. '')" for p
    by (simp add: example_manager_def)
  have st: "py_strip '' Hello there. '' = ''Hello there.''"
    by (simp add: py_strip_def py_whitespace_def)
  from payload_shape [OF s n, of 1] obtain payload reply bm' where
    g: "get_bot_response example_manager ''s1'' ''hello'' 1 =
          (Inr \<lparr>bot_response = reply, crisis_detected = False, detected_keyword = None\<rparr>, bm')"
    and ca: "calls bm' = calls example_manager @ [payload]"
    and p: "payload =
             (case prompts example_manager (bot_type example_session) of
                None \<Rightarrow> []
              | Some p \<Rightarrow> if p = [] then [] else [\<lparr>role = ''system'', content = p\<rparr>])
             @ drop (length (history example_session) - 20) (history example_session)
             @ [\<lparr>role = ''user'', content = ''hello''\<rparr>]"
    and r: "\<forall>c. client example_manager payload = Inr c \<longrightarrow>
                reply = py_strip (case c of None \<Rightarrow> [] | Some t \<Rightarrow> t)"
    and se: "sessions bm' = (sessions example_manager)(''s1'' \<mapsto>
               example_session\<lparr>history := history example_session
                 @ [\<lparr>role = ''user'', content = ''hello''\<rparr>,
                    \<lparr>role = ''assistant'', content = reply\<rparr>]\<rparr>)"
    by blast
  have "reply = ''Hello there.''"
    using r c st by simp
  then show ?thesis
    using g ca p se by (simp add: example_manager_def example_session_def)
qed

section \<open>Conversation handler\<close>

lemma add_message_known:
  assumes "conversations h sid = Some c"
  shows "\<exists>c'. add_message h sid sndr body now
                 = Inr (c', h\<lparr>conversations := (conversations h)(sid \<mapsto> c')\<rparr>)
              \<and> current_message_num c' = current_message_num c + (if sndr = ''user'' then 1 else 0)
              \<and> conv_max_messages c' = conv_max_messages c
              \<and> (is_complete c' \<longleftrightarrow> is_complete c \<or> max_messages h \<le> current_message_num c')"
  using assms by (simp add: add_message_def Let_def)

lemma end_conversation_known:
  assumes "conversations h sid = Some c"
  shows "\<exists>c'. end_conversation h sid reason now
                 = h\<lparr>conversations := (conversations h)(sid \<mapsto> c')\<rparr>
              \<and> current_message_num c' = current_message_num c
              \<and> conv_max_messages c' = conv_max_messages c
              \<and> (is_complete c' \<longleftrightarrow> is_complete c \<or> conv_max_messages c \<le> current_message_num c)"
proof (cases "conv_max_messages c \<le> current_message_num c")
  case True
  let ?c = "c\<lparr>is_active := False, ended_at := Some now, end_reason := Some reason,
               is_complete := True\<rparr>"
  have "end_conversation h sid reason now = h\<lparr>conversations := (conversations h)(sid \<mapsto> ?c)\<rparr>"
    using assms True by (simp add: end_conversation_def Let_def)
  then show ?thesis
    using True by (intro exI [of _ ?c]) simp
next
  case False
  let ?c = "c\<lparr>is_active := False, ended_at := Some now, end_reason := Some reason\<rparr>"
  have "end_conversation h sid reason now = h\<lparr>conversations := (conversations h)(sid \<mapsto> ?c)\<rparr>"
    using assms False by (simp add: end_conversation_def Let_def)
  then show ?thesis
    using False by (intro exI [of _ ?c]) simp
qed

lemma user_turns_nonneg: "0 \<le> user_turns ops"
  by (induction ops rule: user_turns.induct) auto

lemma run_ops_counter:
  assumes "conversations h sid = Some c"
  shows "\<exists>h' c'. run_ops h sid ops = Inr h' \<and> conversations h' sid = Some c'
           \<and> max_messages h' = max_messages h
           \<and> current_message_num c' = current_message_num c + user_turns ops"
  using assms
proof (induction ops arbitrary: h c)
  case Nil
  then show ?case by simp
next
  case (Cons x ops)
  show ?case
  proof (cases x)
    case (AddMessage sndr body now)
    from add_message_known [OF Cons.prems, of sndr body now] obtain c1 where
      a: "add_message h sid sndr body now
            = Inr (c1, h\<lparr>conversations := (conversations h)(sid \<mapsto> c1)\<rparr>)"
      and n: "current_message_num c1 = current_message_num c + (if sndr = ''user'' then 1 else 0)"
      by blast
    have "conversations (h\<lparr>conversations := (conversations h)(sid \<mapsto> c1)\<rparr>) sid = Some c1"
      by simp
    from Cons.IH [OF this] obtain h' c' where
      "run_ops (h\<lparr>conversations := (conversations h)(sid \<mapsto> c1)\<rparr>) sid ops = Inr h'"
      "conversations h' sid = Some c'" "max_messages h' = max_messages h"
      "current_message_num c' = current_message_num c1 + user_turns ops"
      by auto
    then show ?thesis
      using a n AddMessage by simp
  next
    case (EndConversation reason now)
    from end_conversation_known [OF Cons.prems, of reason now] obtain c1 where
      a: "end_conversation h sid reason now
            = h\<lparr>conversations := (conversations h)(sid \<mapsto> c1)\<rparr>"
      and n: "current_message_num c1 = current_message_num c"
      by blast
    have "conversations (h\<lparr>conversations := (conversations h)(sid \<mapsto> c1)\<rparr>) sid = Some c1"
      by simp
    from Cons.IH [OF this] obtain h' c' where
      "run_ops (h\<lparr>conversations := (conversations h)(sid \<mapsto> c1)\<rparr>) sid ops = Inr h'"
      "conversations h' sid = Some c'" "max_messages h' = max_messages h"
      "current_message_num c' = current_message_num c1 + user_turns ops"
      by auto
    then show ?thesis
      using a n EndConversation by simp
  qed
qed

lemma run_ops_complete:
  assumes "conversations h sid = Some c"
      and "conv_max_messages c = max_messages h"
      and "is_complete c \<longleftrightarrow> max_messages h \<le> current_message_num c"
  shows "\<exists>h' c'. run_ops h sid ops = Inr h' \<and> conversations h' sid = Some c'
           \<and> (is_complete c' \<longleftrightarrow> max_messages h \<le> current_message_num c')"
  using assms
proof (induction ops arbitrary: h c)
  case Nil
  then show ?case by simp
next
  case (Cons x ops)
  show ?case
  proof (cases x)
    case (AddMessage sndr body now)
    from add_message_known [OF Cons.prems(1), of sndr body now] obtain c1 where
      a: "add_message h sid sndr body now
            = Inr (c1, h\<lparr>conversations := (conversations h)(sid \<mapsto> c1)\<rparr>)"
      and n: "current_message_num c1 = current_message_num c + (if sndr = ''user'' then 1 else 0)"
      and m: "conv_max_messages c1 = conv_max_messages c"
      and k: "is_complete c1 \<longleftrightarrow> is_complete c \<or> max_messages h \<le> current_message_num c1"
      by blast
    let ?h1 = "h\<lparr>conversations := (conversations h)(sid \<mapsto> c1)\<rparr>"
    have 1: "conversations ?h1 sid = Some c1" by simp
    have 2: "conv_max_messages c1 = max_messages ?h1"
      using m Cons.prems(2) by simp
    have 3: "is_complete c1 \<longleftrightarrow> max_messages ?h1 \<le> current_message_num c1"
      using k n Cons.prems(3) by auto
    from Cons.IH [OF 1 2 3] show ?thesis
      using a AddMessage by simp
  next
    case (EndConversation reason now)
    from end_conversation_known [OF Cons.prems(1), of reason now] obtain c1 where
      a: "end_conversation h sid reason now
            = h\<lparr>conversations := (conversations h)(sid \<mapsto> c1)\<rparr>"
      and n: "current_message_num c1 = current_message_num c"
      and m: "conv_max_messages c1 = conv_max_messages c"
      and k: "is_complete c1 \<longleftrightarrow> is_complete c \<or> conv_max_messages c \<le> current_message_num c"
      by blast
    let ?h1 = "h\<lparr>conversations := (conversations h)(sid \<mapsto> c1)\<rparr>"
    have 1: "conversations ?h1 sid = Some c1" by simp
    have 2: "conv_max_messages c1 = max_messages ?h1"
      using m Cons.prems(2) by simp
    have 3: "is_complete c1 \<longleftrightarrow> max_messages ?h1 \<le> current_message_num c1"
      using k n Cons.prems(2,3) by auto
    from Cons.IH [OF 1 2 3] show ?thesis
      using a EndConversation by simp
  qed
qed

section \<open>Application\<close>

lemma rehydrate_fields:
  "ss_current_message_num (rehydrate a) = ss_current_message_num a"
  "ss_messages (rehydrate a) = ss_messages a"
  "ss_conversation_active (rehydrate a) = ss_conversation_active a"
  "ss_conversation_complete (rehydrate a) = ss_conversation_complete a"
  "ss_session_id (rehydrate a) = ss_session_id a"
  "ss_participant_id (rehydrate a) = ss_participant_id a"
  "app_db (rehydrate a) = app_db a"
  "calls (app_bot (rehydrate a)) = calls (app_bot a)"
  by (simp_all add: rehydrate_def Let_def)

lemma handle_user_input_counter:
  "ss_current_message_num (handle_user_input row_id a u) = ss_current_message_num a + 1"
  by (simp add: handle_user_input_def Let_def split: prod.splits sum.splits option.splits)

lemma handle_user_input_flags:
  "ss_conversation_active (handle_user_input row_id a u) = ss_conversation_active a"
  "ss_conversation_complete (handle_user_input row_id a u) = ss_conversation_complete a"
  by (simp_all add: handle_user_input_def Let_def split: prod.splits sum.splits option.splits)

lemma end_session_calls: "calls (end_session bm sid completed) = calls bm"
  by (simp add: end_session_def)

lemma end_session_removed: "sessions (end_session bm sid completed) sid = None"
  by (auto simp: end_session_def)

lemma boundary_check:
  assumes "cfg_max_messages \<le> ss_current_message_num a"
  shows "ss_messages (main_active_conversation cfg_max_messages row_id a user_input) = ss_messages a"
    and "ss_current_message_num (main_active_conversation cfg_max_messages row_id a user_input)
           = ss_current_message_num a"
    and "calls (app_bot (main_active_conversation cfg_max_messages row_id a user_input))
           = calls (app_bot a)"
    and "ss_conversation_complete (main_active_conversation cfg_max_messages row_id a user_input)"
    and "\<not> ss_conversation_active (main_active_conversation cfg_max_messages row_id a user_input)"
    and "sessions (app_bot (main_active_conversation cfg_max_messages row_id a user_input))
           (ss_session_id a) = None"
    and "app_db (main_active_conversation cfg_max_messages row_id a user_input)
           = app_db a @ [MarkParticipantCompleted (ss_participant_id a)]"
  using assms
  by (simp_all add: main_active_conversation_def Let_def rehydrate_fields end_session_calls
        end_session_removed)

lemma accepted_turn:
  assumes "ss_current_message_num a < cfg_max_messages" and "u \<noteq> []"
      and "ss_conversation_active a" and "\<not> ss_conversation_complete a"
  shows "ss_current_message_num (main_after_welcome cfg_max_messages row_id a (Some u))
           = ss_current_message_num a + 1"
    and "ss_conversation_active (main_after_welcome cfg_max_messages row_id a (Some u))"
    and "\<not> ss_conversation_complete (main_after_welcome cfg_max_messages row_id a (Some u))"
  using assms
  by (simp_all add: main_after_welcome_def main_active_conversation_def Let_def rehydrate_fields
        handle_user_input_counter handle_user_input_flags)

lemma main_active_conversation_mono:
  "ss_current_message_num a
     \<le> ss_current_message_num (main_active_conversation cfg_max_messages row_id a user_input)"
  by (simp add: main_active_conversation_def Let_def rehydrate_fields handle_user_input_counter
        split: option.splits)

text \<open>
  C2, as the spec states it, fails: with a client that raises, the history of the
  session grows by two messages and the message counter of the application grows by
  one.
\<close>

theorem failure_isolation_counterexample:
  "client failing_manager (build_messages failing_manager example_session ''hello'')
     = Inl (Exception ''timeout'')
   \<and> map_option history (sessions failing_manager ''s1'') = Some []
   \<and> map_option history (sessions (snd (get_bot_response failing_manager ''s1'' ''hello'' 1)) ''s1'')
     = Some [\<lparr>role = ''user'', content = ''hello''\<rparr>,
             \<lparr>role = ''assistant'', content = error_reply (Exception ''timeout'')\<rparr>]
   \<and> ss_current_message_num failing_app = 0
   \<and> ss_current_message_num (handle_user_input no_row_id failing_app ''hello'') = 1"
  by (simp add: failing_manager_def failing_app_def example_app_def example_manager_def example_session_def
        example_detector_def get_bot_response_def crisis_check_def call_model_def
        handle_user_input_def no_row_id_def Let_def)

text \<open>
  C2, amended: when the client raises on a turn of an existing session without crisis,
  \<open>_call_model\<close> catches the exception and \<open>get_bot_response\<close> returns the apology
  text with the exception's message as an ordinary reply; the user message and that
  text are appended to the history, and the message counter of the application, which
  is incremented before the call, is one more than before the turn.
\<close>

theorem completion_failure_is_a_reply:
  assumes "sessions bm session_id = Some sess"
      and "\<And>d kw. crisis bm = Some d \<Longrightarrow> check_message d user_message \<noteq> Inr (True, kw)"
      and "client bm (build_messages bm sess user_message) = Inl e"
  shows "get_bot_response bm session_id user_message message_num =
           (Inr \<lparr>bot_response = error_reply e, crisis_detected = False, detected_keyword = None\<rparr>,
            bm\<lparr>calls := calls bm @ [build_messages bm sess user_message],
               sessions := (sessions bm)(session_id \<mapsto>
                 sess\<lparr>history := history sess
                   @ [\<lparr>role = ''user'', content = user_message\<rparr>,
                      \<lparr>role = ''assistant'', content = error_reply e\<rparr>]\<rparr>)\<rparr>)
         \<and> (app_bot a = bm \<and> ss_session_id a = session_id \<longrightarrow>
              ss_current_message_num (handle_user_input row_id a user_message)
                = ss_current_message_num a + 1)"
proof -
  obtain kw where nc: "crisis_check bm user_message = (False, kw)"
    using non_crisis_check [OF assms(2)] by blast
  show ?thesis
    using assms(1,3) nc
    by (simp add: get_bot_response_def call_model_def handle_user_input_counter)
qed

theorem completion_failure_is_a_reply_witness:
  "fst (get_bot_response failing_manager ''s1'' ''hello'' 1) =
     Inr \<lparr>bot_response = error_reply (Exception ''timeout''), crisis_detected = False,
          detected_keyword = None\<rparr>
   \<and> map_option history (sessions (snd (get_bot_response failing_manager ''s1'' ''hello'' 1)) ''s1'')
       = Some [\<lparr>role = ''user'', content = ''hello''\<rparr>,
               \<lparr>role = ''assistant'', content = error_reply (Exception ''timeout'')\<rparr>]
   \<and> ss_current_message_num (handle_user_input no_row_id failing_app ''hello'') = 1"
proof -
  have s: "sessions failing_manager ''s1'' = Some example_session"
    by (simp add: failing_manager_def example_manager_def)
  have n: "\<And>d kw. crisis failing_manager = Some d \<Longrightarrow> check_message d ''hello'' \<noteq> Inr (True, kw)"
    by (auto simp: failing_manager_def example_manager_def example_detector_def)
  have c: "client failing_manager (build_messages failing_manager example_session ''hello'')
             = Inl (Exception ''timeout'')"
    by (simp add: failing_manager_def)
  have a: "app_bot failing_app = failing_manager \<and> ss_session_id failing_app = ''s1''"
    by (simp add: failing_app_def example_app_def)
  have z: "ss_current_message_num failing_app = 0"
    by (simp add: failing_app_def example_app_def)
  from completion_failure_is_a_reply [OF s n c, where a = failing_app and message_num = 1
         and row_id = no_row_id] a z
  show ?thesis
    by (simp add: example_session_def)
qed

text \<open>
  C4: \<open>add_message\<close> on a known conversation adds exactly one to the message counter
  for the sender "user" and nothing for any other sender; over any sequence of calls
  the counter grows by the number of user messages and never decreases. In the
  application every handled user input adds exactly one to the counter, whatever the
  crisis detector says, and no run of the conversation stage decreases it.
\<close>

theorem message_num_increments:
  "(conversations h sid = Some c \<longrightarrow>
      (\<exists>c'. add_message h sid sndr body now
               = Inr (c', h\<lparr>conversations := (conversations h)(sid \<mapsto> c')\<rparr>)
            \<and> current_message_num c'
                = current_message_num c + (if sndr = ''user'' then 1 else 0))
    \<and> (\<exists>h' c'. run_ops h sid ops = Inr h' \<and> conversations h' sid = Some c'
            \<and> current_message_num c' = current_message_num c + user_turns ops
            \<and> current_message_num c \<le> current_message_num c'))
   \<and> ss_current_message_num (handle_user_input row_id a u) = ss_current_message_num a + 1
   \<and> ss_current_message_num a
        \<le> ss_current_message_num (main_active_conversation cfg_max_messages row_id a user_input)"
proof -
  have 1: "\<exists>c'. add_message h sid sndr body now
               = Inr (c', h\<lparr>conversations := (conversations h)(sid \<mapsto> c')\<rparr>)
            \<and> current_message_num c'
                = current_message_num c + (if sndr = ''user'' then 1 else 0)"
    if "conversations h sid = Some c"
    using add_message_known [OF that, of sndr body now] by blast
  have 2: "\<exists>h' c'. run_ops h sid ops = Inr h' \<and> conversations h' sid = Some c'
            \<and> current_message_num c' = current_message_num c + user_turns ops
            \<and> current_message_num c \<le> current_message_num c'"
    if "conversations h sid = Some c"
    using run_ops_counter [OF that, of ops] user_turns_nonneg [of ops] by auto
  show ?thesis
    using 1 2 handle_user_input_counter main_active_conversation_mono by blast
qed

theorem message_num_increments_witness:
  "(\<exists>h' c'. run_ops (snd (start_conversation example_handler ''s1'' ''P1'' ''emotional'' 0)) ''s1''
              [AddMessage ''user'' ''hi'' 1, AddMessage ''bot'' ''hello'' 2,
               AddMessage ''user'' ''I want to end my life'' 3] = Inr h'
        \<and> conversations h' ''s1'' = Some c' \<and> current_message_num c' = 2)
   \<and> ss_current_message_num (handle_user_input no_row_id example_app ''I want to end my life'') = 1"
proof -
  let ?h = "snd (start_conversation example_handler ''s1'' ''P1'' ''emotional'' 0)"
  let ?c = "fst (start_conversation example_handler ''s1'' ''P1'' ''emotional'' 0)"
  have s: "conversations ?h ''s1'' = Some ?c"
    by (simp add: start_conversation_def Let_def)
  have z: "current_message_num ?c = 0"
    by (simp add: start_conversation_def Let_def)
  have a: "ss_current_message_num example_app = 0"
    by (simp add: example_app_def)
  have u: "user_turns [AddMessage ''user'' ''hi'' 1, AddMessage ''bot'' ''hello'' 2,
                         AddMessage ''user'' ''I want to end my life'' 3] = 2"
    by simp
  note t = message_num_increments [where h = ?h and sid = "''s1''" and c = ?c
         and ops = "[AddMessage ''user'' ''hi'' 1, AddMessage ''bot'' ''hello'' 2,
                     AddMessage ''user'' ''I want to end my life'' 3]"
         and row_id = no_row_id and a = example_app and u = "''I want to end my life''"
         and sndr = "''user''" and body = "''hi''" and now = 1
         and cfg_max_messages = 3 and user_input = None]
  from t s have "\<exists>h' c'. run_ops ?h ''s1''
              [AddMessage ''user'' ''hi'' 1, AddMessage ''bot'' ''hello'' 2,
               AddMessage ''user'' ''I want to end my life'' 3] = Inr h'
        \<and> conversations h' ''s1'' = Some c'
        \<and> current_message_num c' = current_message_num ?c
             + user_turns [AddMessage ''user'' ''hi'' 1, AddMessage ''bot'' ''hello'' 2,
                           AddMessage ''user'' ''I want to end my life'' 3]"
    by blast
  then have r: "\<exists>h' c'. run_ops ?h ''s1''
              [AddMessage ''user'' ''hi'' 1, AddMessage ''bot'' ''hello'' 2,
               AddMessage ''user'' ''I want to end my life'' 3] = Inr h'
        \<and> conversations h' ''s1'' = Some c' \<and> current_message_num c' = 2"
    unfolding u z by simp
  from t have "ss_current_message_num (handle_user_input no_row_id example_app ''I want to end my life'')
                 = ss_current_message_num example_app + 1"
    by blast
  then have k: "ss_current_message_num (handle_user_input no_row_id example_app ''I want to end my life'') = 1"
    unfolding a by simp
  from r k show ?thesis
    by blast
qed

text \<open>
  C6: for a conversation started with a cap of at least one, after any sequence of
  calls \<open>is_complete\<close> holds exactly when the message counter has reached the cap; in
  particular with a cap of 3 it holds after the third user message. In the
  application, a run that starts with the counter at the cap takes no input: the
  messages, the counter and the trace of client calls stay as they were, the session
  is removed and the conversation is marked complete. After three accepted user
  inputs with a cap of 3, a fourth input is therefore not processed.
\<close>

theorem session_cap:
  "(1 \<le> max_messages h \<longrightarrow>
      (\<exists>h' c'. run_ops (snd (start_conversation h sid pid bt now)) sid ops = Inr h'
          \<and> conversations h' sid = Some c'
          \<and> current_message_num c' = user_turns ops
          \<and> (is_complete c' \<longleftrightarrow> max_messages h \<le> current_message_num c')
          \<and> (max_messages h = 3 \<and> user_turns ops = 3 \<longrightarrow> is_complete c')))
   \<and> (cfg_max_messages \<le> ss_current_message_num a \<longrightarrow>
        ss_messages (main_active_conversation cfg_max_messages row_id a user_input) = ss_messages a
      \<and> ss_current_message_num (main_active_conversation cfg_max_messages row_id a user_input)
          = ss_current_message_num a
      \<and> calls (app_bot (main_active_conversation cfg_max_messages row_id a user_input))
          = calls (app_bot a)
      \<and> app_db (main_active_conversation cfg_max_messages row_id a user_input)
          = app_db a @ [MarkParticipantCompleted (ss_participant_id a)]
      \<and> sessions (app_bot (main_active_conversation cfg_max_messages row_id a user_input))
          (ss_session_id a) = None
      \<and> ss_conversation_complete (main_active_conversation cfg_max_messages row_id a user_input)
      \<and> \<not> ss_conversation_active (main_active_conversation cfg_max_messages row_id a user_input))
   \<and> (ss_current_message_num a = 0 \<and> ss_conversation_active a \<and> \<not> ss_conversation_complete a
        \<and> u1 \<noteq> [] \<and> u2 \<noteq> [] \<and> u3 \<noteq> [] \<longrightarrow>
        ss_current_message_num
          (main_after_welcome 3 row_id (main_after_welcome 3 row_id
             (main_after_welcome 3 row_id a (Some u1)) (Some u2)) (Some u3)) = 3
      \<and> ss_messages (main_after_welcome 3 row_id
          (main_after_welcome 3 row_id (main_after_welcome 3 row_id
             (main_after_welcome 3 row_id a (Some u1)) (Some u2)) (Some u3)) (Some u4))
         = ss_messages (main_after_welcome 3 row_id (main_after_welcome 3 row_id
             (main_after_welcome 3 row_id a (Some u1)) (Some u2)) (Some u3))
      \<and> calls (app_bot (main_after_welcome 3 row_id
          (main_after_welcome 3 row_id (main_after_welcome 3 row_id
             (main_after_welcome 3 row_id a (Some u1)) (Some u2)) (Some u3)) (Some u4)))
         = calls (app_bot (main_after_welcome 3 row_id (main_after_welcome 3 row_id
             (main_after_welcome 3 row_id a (Some u1)) (Some u2)) (Some u3)))
      \<and> ss_conversation_complete (main_after_welcome 3 row_id
          (main_after_welcome 3 row_id (main_after_welcome 3 row_id
             (main_after_welcome 3 row_id a (Some u1)) (Some u2)) (Some u3)) (Some u4)))"
proof (intro conjI impI)
  assume m: "1 \<le> max_messages h"
  let ?h0 = "snd (start_conversation h sid pid bt now)"
  let ?c0 = "fst (start_conversation h sid pid bt now)"
  have s: "conversations ?h0 sid = Some ?c0"
    by (simp add: start_conversation_def Let_def)
  have z: "current_message_num ?c0 = 0" and mh: "max_messages ?h0 = max_messages h"
    and mc: "conv_max_messages ?c0 = max_messages ?h0" and nc: "\<not> is_complete ?c0"
    by (simp_all add: start_conversation_def Let_def)
  have i: "is_complete ?c0 \<longleftrightarrow> max_messages ?h0 \<le> current_message_num ?c0"
    using m z mh nc by simp
  from run_ops_counter [OF s, of ops] obtain h1 c1 where
    r1: "run_ops ?h0 sid ops = Inr h1" "conversations h1 sid = Some c1"
        "current_message_num c1 = user_turns ops"
    using z by auto
  from run_ops_complete [OF s mc i, of ops] r1
  have "is_complete c1 \<longleftrightarrow> max_messages h \<le> current_message_num c1"
    using mh by auto
  then show "\<exists>h' c'. run_ops ?h0 sid ops = Inr h'
          \<and> conversations h' sid = Some c'
          \<and> current_message_num c' = user_turns ops
          \<and> (is_complete c' \<longleftrightarrow> max_messages h \<le> current_message_num c')
          \<and> (max_messages h = 3 \<and> user_turns ops = 3 \<longrightarrow> is_complete c')"
    using r1 by auto
next
  assume b: "cfg_max_messages \<le> ss_current_message_num a"
  show "ss_messages (main_active_conversation cfg_max_messages row_id a user_input) = ss_messages a"
    "ss_current_message_num (main_active_conversation cfg_max_messages row_id a user_input)
          = ss_current_message_num a"
    "calls (app_bot (main_active_conversation cfg_max_messages row_id a user_input))
          = calls (app_bot a)"
    "app_db (main_active_conversation cfg_max_messages row_id a user_input)
          = app_db a @ [MarkParticipantCompleted (ss_participant_id a)]"
    "sessions (app_bot (main_active_conversation cfg_max_messages row_id a user_input))
          (ss_session_id a) = None"
    "ss_conversation_complete (main_active_conversation cfg_max_messages row_id a user_input)"
    using boundary_check [OF b] by simp_all
  show "\<not> ss_conversation_active (main_active_conversation cfg_max_messages row_id a user_input)"
    using boundary_check(5) [OF b] by simp
next
  assume p: "ss_current_message_num a = 0 \<and> ss_conversation_active a \<and> \<not> ss_conversation_complete a
        \<and> u1 \<noteq> [] \<and> u2 \<noteq> [] \<and> u3 \<noteq> []"
  let ?a1 = "main_after_welcome 3 row_id a (Some u1)"
  let ?a2 = "main_after_welcome 3 row_id ?a1 (Some u2)"
  let ?a3 = "main_after_welcome 3 row_id ?a2 (Some u3)"
  have 1: "ss_current_message_num ?a1 = 1" "ss_conversation_active ?a1"
    "\<not> ss_conversation_complete ?a1"
    using p accepted_turn [of a 3 u1 row_id] by simp_all
  have 2: "ss_current_message_num ?a2 = 2" "ss_conversation_active ?a2"
    "\<not> ss_conversation_complete ?a2"
    using p 1 accepted_turn [of ?a1 3 u2 row_id] by simp_all
  have 3: "ss_current_message_num ?a3 = 3" "ss_conversation_active ?a3"
    "\<not> ss_conversation_complete ?a3"
    using p 2 accepted_turn [of ?a2 3 u3 row_id] by simp_all
  have 4: "main_after_welcome 3 row_id ?a3 (Some u4)
             = main_active_conversation 3 row_id ?a3 (Some u4)"
    using 3 by (simp add: main_after_welcome_def)
  have b: "3 \<le> ss_current_message_num ?a3"
    using 3 by simp
  show "ss_current_message_num ?a3 = 3"
    by (rule 3)
  show "ss_messages (main_after_welcome 3 row_id ?a3 (Some u4)) = ss_messages ?a3"
    unfolding 4 by (rule boundary_check(1) [OF b])
  show "calls (app_bot (main_after_welcome 3 row_id ?a3 (Some u4))) = calls (app_bot ?a3)"
    unfolding 4 by (rule boundary_check(3) [OF b])
  show "ss_conversation_complete (main_after_welcome 3 row_id ?a3 (Some u4))"
    unfolding 4 by (rule boundary_check(4) [OF b])
qed

theorem session_cap_witness:
  "(\<exists>h' c'. run_ops (snd (start_conversation example_handler ''s1'' ''P1'' ''emotional'' 0)) ''s1''
              [AddMessage ''user'' ''a'' 1, AddMessage ''bot'' ''x'' 2, AddMessage ''user'' ''b'' 3,
               AddMessage ''bot'' ''y'' 4, AddMessage ''user'' ''c'' 5] = Inr h'
        \<and> conversations h' ''s1'' = Some c' \<and> current_message_num c' = 3 \<and> is_complete c')
   \<and> ss_messages (main_active_conversation 3 no_row_id
         (example_app\<lparr>ss_current_message_num := 3\<rparr>) (Some ''d'')) = []
   \<and> ss_conversation_complete (main_after_welcome 3 no_row_id
        (main_after_welcome 3 no_row_id (main_after_welcome 3 no_row_id
           (main_after_welcome 3 no_row_id example_app (Some ''a'')) (Some ''b'')) (Some ''c''))
        (Some ''d''))"
proof -
  let ?ops = "[AddMessage ''user'' ''a'' 1, AddMessage ''bot'' ''x'' 2, AddMessage ''user'' ''b'' 3,
               AddMessage ''bot'' ''y'' 4, AddMessage ''user'' ''c'' 5]"
  have m: "1 \<le> max_messages example_handler" "max_messages example_handler = 3"
    by (simp_all add: example_handler_def)
  have u: "user_turns ?ops = 3"
    by simp
  have b: "3 \<le> ss_current_message_num (example_app\<lparr>ss_current_message_num := 3\<rparr>)"
    by simp
  have e: "ss_messages (example_app\<lparr>ss_current_message_num := 3\<rparr>) = []"
    by (simp add: example_app_def)
  have p: "ss_current_message_num example_app = 0 \<and> ss_conversation_active example_app
        \<and> \<not> ss_conversation_complete example_app \<and> ''a'' \<noteq> [] \<and> ''b'' \<noteq> [] \<and> ''c'' \<noteq> []"
    by (simp add: example_app_def)
  note t1 = session_cap [where h = example_handler and sid = "''s1''" and pid = "''P1''"
      and bt = "''emotional''" and now = 0 and ops = ?ops
      and cfg_max_messages = 3 and a = "example_app\<lparr>ss_current_message_num := 3\<rparr>"
      and row_id = no_row_id and user_input = "Some ''d''"
      and ?u1.0 = "''a''" and ?u2.0 = "''b''" and ?u3.0 = "''c''" and ?u4.0 = "''d''"]
  note t2 = session_cap [where h = example_handler and sid = "''s1''" and pid = "''P1''"
      and bt = "''emotional''" and now = 0 and ops = ?ops
      and cfg_max_messages = 3 and a = example_app
      and row_id = no_row_id and user_input = "Some ''d''"
      and ?u1.0 = "''a''" and ?u2.0 = "''b''" and ?u3.0 = "''c''" and ?u4.0 = "''d''"]
  from t1 m have "\<exists>h' c'. run_ops (snd (start_conversation example_handler ''s1'' ''P1'' ''emotional'' 0))
                     ''s1'' ?ops = Inr h'
        \<and> conversations h' ''s1'' = Some c' \<and> current_message_num c' = user_turns ?ops
        \<and> (max_messages example_handler = 3 \<and> user_turns ?ops = 3 \<longrightarrow> is_complete c')"
    by blast
  then have 1: "\<exists>h' c'. run_ops (snd (start_conversation example_handler ''s1'' ''P1'' ''emotional'' 0))
                     ''s1'' ?ops = Inr h'
        \<and> conversations h' ''s1'' = Some c' \<and> current_message_num c' = 3 \<and> is_complete c'"
    unfolding u using m(2) by simp
  from t1 b have "ss_messages (main_active_conversation 3 no_row_id
         (example_app\<lparr>ss_current_message_num := 3\<rparr>) (Some ''d''))
       = ss_messages (example_app\<lparr>ss_current_message_num := 3\<rparr>)"
    by blast
  then have 2: "ss_messages (main_active_conversation 3 no_row_id
         (example_app\<lparr>ss_current_message_num := 3\<rparr>) (Some ''d'')) = []"
    unfolding e .
  from t2 p have 3: "ss_conversation_complete (main_after_welcome 3 no_row_id
        (main_after_welcome 3 no_row_id (main_after_welcome 3 no_row_id
           (main_after_welcome 3 no_row_id example_app (Some ''a'')) (Some ''b'')) (Some ''c''))
        (Some ''d''))"
    by blast
  from 1 2 3 show ?thesis
    by blast
qed

section \<open>Assignment\<close>

lemma py_min_Min:
  assumes "xs \<noteq> []"
  shows "py_min xs = Inr (Min (set xs))"
proof (cases xs)
  case Nil
  with assms show ?thesis by simp
next
  case (Cons x ys)
  show ?thesis
    unfolding Cons using Min.set_eq_fold [of x ys] by simp
qed

lemma random_choice_member:
  "xs \<noteq> [] \<Longrightarrow> \<exists>x. random_choice r xs = Inr x \<and> x \<in> set xs"
  by (simp add: random_choice_def)

lemma with_min_nonempty:
  assumes "d \<noteq> []"
  shows "bot_types_with_min d (Min (set (map snd d))) \<noteq> []"
proof -
  have "Min (set (map snd d)) \<in> set (map snd d)"
    using assms by (intro Min_in) auto
  then obtain k where "(k, Min (set (map snd d))) \<in> set d"
    by auto
  then have "k \<in> set (bot_types_with_min d (Min (set (map snd d))))"
    by (force simp: bot_types_with_min_def)
  then show ?thesis
    by auto
qed

lemma assign_equal_distribution_min:
  assumes "d \<noteq> []"
  shows "\<exists>b. assign_bot_type ''equal_distribution''
                \<lparr>bot_distribution = d, total_participants = n\<rparr> r = Inr b
             \<and> (b, Min (set (map snd d))) \<in> set d"
proof -
  from random_choice_member [OF with_min_nonempty [OF assms], of r] obtain b where
    b: "random_choice r (bot_types_with_min d (Min (set (map snd d)))) = Inr b"
       "b \<in> set (bot_types_with_min d (Min (set (map snd d))))"
    by blast
  from b(2) have "(b, Min (set (map snd d))) \<in> set d"
    by (auto simp: bot_types_with_min_def)
  moreover have "assign_bot_type ''equal_distribution''
                   \<lparr>bot_distribution = d, total_participants = n\<rparr> r = Inr b"
    using assms b(1) by (simp add: assign_bot_type_def assign_equal_distribution_def py_min_Min)
  ultimately show ?thesis
    by blast
qed

lemma persist_participant_counts:
  assumes "distinct (map fst d)" and "(b, m) \<in> set d"
  shows "set (map snd (persist_participant d b)) \<subseteq> insert (m + 1) (set (map snd d))"
    and "map fst (persist_participant d b) = map fst d"
proof -
  let ?f = "\<lambda>(k, c). if k = b then (k, c + 1) else (k, c)"
  have k: "b \<in> set (map fst d)"
    using assms(2) by force
  then have p: "persist_participant d b = map ?f d"
    by (simp add: persist_participant_def)
  have "snd (?f x) \<in> insert (m + 1) (set (map snd d))" if "x \<in> set d" for x
  proof (cases x)
    case (Pair k c)
    show ?thesis
    proof (cases "k = b")
      case True
      with that Pair assms have "c = m"
        by (metis eq_key_imp_eq_value)
      with True Pair show ?thesis by simp
    next
      case False
      with that Pair show ?thesis by force
    qed
  qed
  then show "set (map snd (persist_participant d b)) \<subseteq> insert (m + 1) (set (map snd d))"
    unfolding p by auto
  show "map fst (persist_participant d b) = map fst d"
    unfolding p by (induction d) auto
qed

lemma balanced_step:
  assumes "balanced d" and "(b, Min (set (map snd d))) \<in> set d"
  shows "balanced (persist_participant d b)"
proof -
  let ?m = "Min (set (map snd d))"
  have ne: "d \<noteq> []" and di: "distinct (map fst d)"
    and le: "\<And>c c'. c \<in> set (map snd d) \<Longrightarrow> c' \<in> set (map snd d) \<Longrightarrow> c \<le> c' + 1"
    using assms(1) by (auto simp: balanced_def)
  have mi: "?m \<in> set (map snd d)"
    using ne by (intro Min_in) auto
  have lo: "?m \<le> c" if "c \<in> set (map snd d)" for c
    using that by (intro Min_le) auto
  note pc = persist_participant_counts [OF di assms(2)]
  have bounds: "?m \<le> c \<and> c \<le> ?m + 1" if "c \<in> set (map snd (persist_participant d b))" for c
  proof -
    from that pc(1) consider "c = ?m + 1" | "c \<in> set (map snd d)"
      by auto
    then show ?thesis
    proof cases
      case 1
      then show ?thesis by simp
    next
      case 2
      from lo [OF 2] le [OF 2 mi] show ?thesis by simp
    qed
  qed
  have "persist_participant d b \<noteq> []"
    using pc(2) ne by (metis map_is_Nil_conv)
  moreover have "distinct (map fst (persist_participant d b))"
    using pc(2) di by simp
  moreover have "c \<le> c' + 1"
    if "c \<in> set (map snd (persist_participant d b))"
      and "c' \<in> set (map snd (persist_participant d b))" for c c'
    using bounds [OF that(1)] bounds [OF that(2)] by linarith
  ultimately show ?thesis
    unfolding balanced_def by blast
qed

lemma balanced_spread:
  assumes "balanced d"
  shows "count_spread d \<le> 1"
proof -
  have ne: "d \<noteq> []"
    and le: "\<And>c c'. c \<in> set (map snd d) \<Longrightarrow> c' \<in> set (map snd d) \<Longrightarrow> c \<le> c' + 1"
    using assms by (auto simp: balanced_def)
  have "Max (set (map snd d)) \<in> set (map snd d)"
    using ne by (intro Max_in) auto
  moreover have "Min (set (map snd d)) \<in> set (map snd d)"
    using ne by (intro Min_in) auto
  ultimately show ?thesis
    using le unfolding count_spread_def by fastforce
qed

lemma assign_sequence_balanced:
  assumes "balanced d"
  shows "\<exists>ds. assign_sequence d rs = Inr ds \<and> length ds = Suc (length rs)
           \<and> (\<forall>x \<in> set ds. balanced x)"
  using assms
proof (induction rs arbitrary: d)
  case Nil
  then show ?case by simp
next
  case (Cons r rs)
  have ne: "d \<noteq> []"
    using Cons.prems by (simp add: balanced_def)
  from assign_equal_distribution_min [OF ne, of "sum_list (map snd d)" r] obtain b where
    b: "assign_bot_type ''equal_distribution''
          \<lparr>bot_distribution = d, total_participants = sum_list (map snd d)\<rparr> r = Inr b"
       "(b, Min (set (map snd d))) \<in> set d"
    by blast
  from Cons.IH [OF balanced_step [OF Cons.prems b(2)]] obtain ds where
    "assign_sequence (persist_participant d b) rs = Inr ds" "length ds = Suc (length rs)"
    "\<forall>x \<in> set ds. balanced x"
    by blast
  then show ?case
    using b(1) Cons.prems by simp
qed

lemma zero_balanced:
  assumes "d \<noteq> []" and "distinct (map fst d)" and "\<forall>c \<in> set (map snd d). c = 0"
  shows "balanced d"
  using assms unfolding balanced_def by auto

text \<open>
  C3: starting from a distribution that has at least one variant, distinct variants
  and only zero counts, every sequence of serialized equal-distribution assignments
  succeeds, and in every distribution seen on the way the largest count exceeds the
  smallest by at most one.
\<close>

theorem equal_distribution_balance:
  assumes "d \<noteq> []" and "distinct (map fst d)" and "\<forall>c \<in> set (map snd d). c = 0"
  shows "\<exists>ds. assign_sequence d rs = Inr ds \<and> length ds = Suc (length rs)
           \<and> (\<forall>x \<in> set ds. Max (set (map snd x)) - Min (set (map snd x)) \<le> 1)"
proof -
  from assign_sequence_balanced [OF zero_balanced [OF assms], of rs] obtain ds where
    ds: "assign_sequence d rs = Inr ds" "length ds = Suc (length rs)" "\<forall>x \<in> set ds. balanced x"
    by blast
  have "\<forall>x \<in> set ds. Max (set (map snd x)) - Min (set (map snd x)) \<le> 1"
    using ds(3) balanced_spread unfolding count_spread_def by blast
  with ds show ?thesis
    by blast
qed

theorem equal_distribution_balance_witness:
  "\<exists>ds. assign_sequence zero_distribution [0, 5, 2, 7, 1] = Inr ds \<and> length ds = 6
     \<and> Max (set (map snd (last ds))) - Min (set (map snd (last ds))) \<le> 1"
proof -
  have 1: "zero_distribution \<noteq> []" and 2: "distinct (map fst zero_distribution)"
    and 3: "\<forall>c \<in> set (map snd zero_distribution). c = 0"
    by (simp_all add: zero_distribution_def)
  from equal_distribution_balance [OF 1 2 3, of "[0, 5, 2, 7, 1]"] obtain ds where
    ds: "assign_sequence zero_distribution [0, 5, 2, 7, 1] = Inr ds"
        "length ds = Suc (length [0::nat, 5, 2, 7, 1])"
        "\<forall>x \<in> set ds. Max (set (map snd x)) - Min (set (map snd x)) \<le> 1"
    by blast
  from ds(2) have "ds \<noteq> []"
    by auto
  then have "last ds \<in> set ds"
    by simp
  with ds(3) have "Max (set (map snd (last ds))) - Min (set (map snd (last ds))) \<le> 1"
    by blast
  with ds(1,2) show ?thesis
    by simp
qed

text \<open>
  C9: with an empty distribution the equal-distribution assignment raises the
  ValueError of \<open>min\<close> on an empty sequence; it returns no variant.
\<close>

theorem empty_distribution_raises:
  "assign_bot_type ''equal_distribution'' \<lparr>bot_distribution = [], total_participants = 0\<rparr> r =
     Inl (ValueError ''min() arg is an empty sequence'')"
  by (simp add: assign_bot_type_def assign_equal_distribution_def)

text \<open>
  C5, as the spec states it, fails: with the random draw 0, \<open>create_new_session\<close>
  assigns the variant "cognitive", which is not among the variants with the least
  count of a distribution in which "cognitive" is ahead by five.
\<close>

theorem unbalanced_session_creation_counterexample:
  "fst (create_new_session example_manager ''0b6f5c1e-uuid'' ''7a3d9e20-uuid'' 0) =
     Inr \<lparr>sd_session_id = ''0b6f5c1e-uuid'', sd_participant_id = ''P7A3D9E20'',
          sd_bot_type = ''cognitive''\<rparr>
   \<and> py_min (map snd skewed_distribution) = Inr 0
   \<and> ''cognitive'' \<notin> set (bot_types_with_min skewed_distribution 0)"
  by (simp add: create_new_session_def random_choice_def bot_types_def py_upper_def
        skewed_distribution_def bot_types_with_min_def Let_def)

text \<open>
  C5, amended: \<open>create_new_session\<close> assigns the variant by a uniform random choice
  among the four bot types of the bot manager, reads no distribution, and registers
  the session with an empty history; every bot type is the result of some draw.
\<close>

theorem create_new_session_uniform:
  "create_new_session bm uuid1 uuid2 r =
     (Inr \<lparr>sd_session_id = uuid1, sd_participant_id = ''P'' @ map py_upper (take 8 uuid2),
           sd_bot_type = bot_types ! (r mod 4)\<rparr>,
      bm\<lparr>sessions := (sessions bm)(uuid1 \<mapsto>
            \<lparr>participant_id = ''P'' @ map py_upper (take 8 uuid2),
             bot_type = bot_types ! (r mod 4), history = []\<rparr>)\<rparr>)
   \<and> set (map (\<lambda>r. bot_types ! (r mod 4)) [0, 1, 2, 3]) =
       {''cognitive'', ''emotional'', ''motivational'', ''control''}"
  by (auto simp: create_new_session_def random_choice_def bot_types_def Let_def)

end
